theory Spec2Isabelle
  imports Complex_Main
begin

section \<open>The TCP port scanner of \<open>aio_cli/network.py\<close>\<close>

text \<open>
  The development embeds \<open>_resolve_host\<close> and the command \<open>port_scan\<close> of
  \<open>src/aio_cli/network.py\<close>. What lies outside the source is a parameter: the network
  answers the resolver call and the connection attempts, the local machine answers the
  creation of a socket and the setting of its timeout. Everything the command does to the
  outside (lines echoed, the resolver call, sockets opened, configured, connected and
  closed) is recorded, in program order, in a trace of events, so that statements about
  the number and the order of the effects are statements about that list.
\<close>

subsection \<open>Data\<close>

type_synonym ip = string

text \<open>
  The exceptions that can occur in \<open>port_scan\<close>. \<open>socket.gaierror\<close> and
  \<open>socket.error\<close> (\<open>OSError\<close>) are the two classes the source names in its
  handlers. \<open>UnicodeError\<close> is what \<open>socket.gethostbyname\<close> raises for a host name
  with an empty or overlong label; \<open>ValueError\<close> and \<open>OverflowError\<close> are raised by
  the argument checks of \<open>settimeout\<close> and \<open>connect_ex\<close>. None of the last three is
  caught by either handler.
\<close>

datatype exn = gaierror | socket_error | ValueError | OverflowError | UnicodeError

text \<open>
  A Python \<open>float\<close>, the type of the option \<open>timeout\<close>: a finite value, read as
  the real number it denotes, an infinity or a NaN.
\<close>

datatype py_float = Finite real | Pos_inf | Neg_inf | Not_a_number

text \<open>
  What the operating system answers to a connection attempt that the library has
  accepted: \<open>connect_ex\<close> returns an error indicator (\<open>0\<close> when the connection was
  established, the \<open>errno\<close> value otherwise, also for a timeout), or raises
  \<open>socket.error\<close>.
\<close>

datatype connect_outcome = Errno int | Socket_error

text \<open>
  The network: \<open>gethostbyname\<close> gives the address of a host, or the exception that
  \<open>socket.gethostbyname\<close> raises; \<open>connect\<close> gives the outcome of a connection
  attempt to an address and a port under a timeout.
\<close>

record env =
  gethostbyname :: "string \<Rightarrow> exn + ip"
  connect :: "ip \<Rightarrow> int \<Rightarrow> py_float \<Rightarrow> connect_outcome"

text \<open>
  The local machine: \<open>socket_socket p\<close> is the outcome of the call
  \<open>socket.socket(AF_INET, SOCK_STREAM)\<close> in the pass of the loop for port \<open>p\<close>
  (each port has one pass), \<open>None\<close> when the socket is created and the exception
  otherwise (an \<open>OSError\<close> when no descriptor is left); \<open>settimeout t\<close> is the outcome
  of \<open>sock.settimeout(t)\<close>, \<open>None\<close> when the library accepts the timeout and the
  exception otherwise (it rejects a negative one, a NaN and one too large for its clock).
\<close>

record machine =
  socket_socket :: "int \<Rightarrow> exn option"
  settimeout :: "py_float \<Rightarrow> exn option"

text \<open>The arguments of the command. Python's \<open>int\<close> is unbounded, hence \<open>int\<close>.\<close>

record request =
  host :: string
  start_port :: int
  end_port :: int
  timeout :: py_float

datatype stream = Stdout | Stderr

text \<open>
  The lines the command prints, one constructor per \<open>typer.echo\<close> or
  \<open>typer.secho\<close> call of the source:
  \<^item> \<open>Scanning\<close>: \<^verbatim>\<open>Scanning {host} ports {start_port}-{end_port} with timeout {timeout}s...\<close>
  \<^item> \<open>Resolve_failed\<close>: \<^verbatim>\<open>Failed to resolve host: {exc}\<close>
  \<^item> \<open>Open_ports_header\<close>: \<^verbatim>\<open>Open ports:\<close>
  \<^item> \<open>Open_ports_line\<close>: the open ports, joined by commas
  \<^item> \<open>No_open_ports\<close>: \<^verbatim>\<open>No open ports found in the specified range.\<close>
\<close>

datatype message =
    Scanning string int int py_float
  | Resolve_failed
  | Open_ports_header
  | Open_ports_line "int list"
  | No_open_ports

text \<open>
  \<open>Socket_open\<close> records a socket that was created, \<open>Socket_close\<close> its closing by
  the \<open>with\<close> statement; \<open>Settimeout\<close> and \<open>Connect_ex\<close> record the calls.
\<close>

datatype event =
    Echo stream message
  | Gethostbyname string
  | Socket_open
  | Settimeout py_float
  | Connect_ex ip int
  | Socket_close

text \<open>
  How an invocation ends: the function returns (with the final value of the local
  \<open>open_ports\<close>), it raises \<open>typer.Exit(code)\<close>, or an exception leaves it uncaught.
\<close>

datatype status = Completed "int list" | Exit int | Uncaught exn

record scan_state =
  open_ports :: "int list"
  trace :: "event list"

record scan_result =
  outcome :: status
  effects :: "event list"

subsection \<open>The library calls\<close>

definition emit :: "event \<Rightarrow> scan_state \<Rightarrow> scan_state" where
  "emit ev s = s\<lparr>trace := trace s @ [ev]\<rparr>"

text \<open>
  \<^verbatim>\<open>def _resolve_host(host): return socket.gethostbyname(host)\<close>: the address, or
  whatever exception the call raises.
\<close>

definition resolve_host :: "env \<Rightarrow> string \<Rightarrow> exn + ip" where
  "resolve_host e h = gethostbyname e h"

text \<open>
  \<open>sock.connect_ex((target_ip, port))\<close>: the library rejects a port outside
  \<open>0..65535\<close> with \<open>OverflowError\<close> before it attempts anything.
\<close>

definition connect_ex :: "env \<Rightarrow> ip \<Rightarrow> int \<Rightarrow> py_float \<Rightarrow> exn + int" where
  "connect_ex e a p t =
     (if p < 0 \<or> 65535 < p then Inl OverflowError
      else case connect e a p t of Errno n \<Rightarrow> Inr n | Socket_error \<Rightarrow> Inl socket_error)"

subsection \<open>The scan\<close>

text \<open>
  The body of the loop:
  \<^verbatim>\<open>
  with socket.socket(socket.AF_INET, socket.SOCK_STREAM) as sock:
      sock.settimeout(timeout)
      try:
          result = sock.connect_ex((target_ip, port))
          if result == 0:
              open_ports.append(port)
      except socket.error:
          pass
  \<close>
  The creation of the socket and \<open>settimeout\<close> stand outside the \<open>try\<close>: an exception
  of either leaves the body, the first before any socket exists. Once the socket exists,
  the \<open>with\<close> statement closes it when its block is left, normally or by an exception.
  The result is the exception that leaves the body, if any, and the new state.
\<close>

definition probe ::
  "machine \<Rightarrow> env \<Rightarrow> ip \<Rightarrow> py_float \<Rightarrow> int \<Rightarrow> scan_state \<Rightarrow> exn option \<times> scan_state" where
  "probe m e a t p s =
     (case socket_socket m p of
        Some x \<Rightarrow> (Some x, s)
      | None \<Rightarrow>
          (let s1 = emit Socket_open s;
               s2 = emit (Settimeout t) s1
           in case settimeout m t of
                Some x \<Rightarrow> (Some x, emit Socket_close s2)
              | None \<Rightarrow>
                  (let s3 = emit (Connect_ex a p) s2
                   in case connect_ex e a p t of
                        Inr result \<Rightarrow>
                          (None, emit Socket_close
                             (if result = 0 then s3\<lparr>open_ports := open_ports s3 @ [p]\<rparr>
                              else s3))
                      | Inl x \<Rightarrow>
                          (if x = socket_error then (None, emit Socket_close s3)
                           else (Some x, emit Socket_close s3)))))"

text \<open>
  \<^verbatim>\<open>for port in range(start_port, end_port + 1): ...\<close> over the list of the ports
  still to visit; an exception that leaves the body leaves the loop.
\<close>

fun scan_loop ::
  "machine \<Rightarrow> env \<Rightarrow> ip \<Rightarrow> py_float \<Rightarrow> int list \<Rightarrow> scan_state \<Rightarrow> exn option \<times> scan_state" where
  "scan_loop m e a t [] s = (None, s)"
| "scan_loop m e a t (p # ps) s =
     (case probe m e a t p s of
        (Some x, s') \<Rightarrow> (Some x, s')
      | (None, s') \<Rightarrow> scan_loop m e a t ps s')"

text \<open>
  The command. \<open>range(start_port, end_port + 1)\<close> is the list \<open>[start_port..end_port]\<close>,
  empty when \<open>end_port < start_port\<close>. The handler \<open>except socket.gaierror\<close> catches
  that class only; any other exception of the resolver leaves the command.
\<close>

definition port_scan :: "machine \<Rightarrow> env \<Rightarrow> request \<Rightarrow> scan_result" where
  "port_scan m e r =
     (let s0 = emit (Echo Stdout (Scanning (host r) (start_port r) (end_port r) (timeout r)))
                 \<lparr>open_ports = [], trace = []\<rparr>;
          s1 = emit (Gethostbyname (host r)) s0
      in case resolve_host e (host r) of
           Inl x \<Rightarrow>
             (if x = gaierror
              then \<lparr>outcome = Exit 1, effects = trace (emit (Echo Stderr Resolve_failed) s1)\<rparr>
              else \<lparr>outcome = Uncaught x, effects = trace s1\<rparr>)
         | Inr target_ip \<Rightarrow>
             (case scan_loop m e target_ip (timeout r) [start_port r..end_port r] s1 of
                (Some x, s2) \<Rightarrow> \<lparr>outcome = Uncaught x, effects = trace s2\<rparr>
              | (None, s2) \<Rightarrow>
                  (if open_ports s2 \<noteq> []
                   then \<lparr>outcome = Completed (open_ports s2),
                         effects = trace (emit (Echo Stdout (Open_ports_line (open_ports s2)))
                                      (emit (Echo Stdout Open_ports_header) s2))\<rparr>
                   else \<lparr>outcome = Completed (open_ports s2),
                         effects = trace (emit (Echo Stdout No_open_ports) s2)\<rparr>)))"

text \<open>
  The exit code of the process: \<open>0\<close> when the command returns, the code of
  \<open>typer.Exit\<close>, and \<open>1\<close> when the interpreter ends on an uncaught exception.
\<close>

fun exit_code :: "status \<Rightarrow> int" where
  "exit_code (Completed ps) = 0"
| "exit_code (Exit c) = c"
| "exit_code (Uncaught x) = 1"

subsection \<open>Reading a trace\<close>

text \<open>The ports of the connection attempts, in the order they were made.\<close>

fun probed_ports :: "event list \<Rightarrow> int list" where
  "probed_ports [] = []"
| "probed_ports (Connect_ex a p # evs) = p # probed_ports evs"
| "probed_ports (ev # evs) = probed_ports evs"

definition resolver_calls :: "event list \<Rightarrow> nat" where
  "resolver_calls evs = length (filter (\<lambda>ev. case ev of Gethostbyname h \<Rightarrow> True | _ \<Rightarrow> False) evs)"

definition sockets_opened :: "event list \<Rightarrow> nat" where
  "sockets_opened evs = length (filter (\<lambda>ev. ev = Socket_open) evs)"

definition sockets_closed :: "event list \<Rightarrow> nat" where
  "sockets_closed evs = length (filter (\<lambda>ev. ev = Socket_close) evs)"

text \<open>An event of the network: everything but the lines echoed.\<close>

fun is_network :: "event \<Rightarrow> bool" where
  "is_network (Echo st m) = False"
| "is_network ev = True"

text \<open>The events of one pass through the loop body that reaches the connection attempt.\<close>

definition probe_events :: "ip \<Rightarrow> py_float \<Rightarrow> int \<Rightarrow> event list" where
  "probe_events a t p = [Socket_open, Settimeout t, Connect_ex a p, Socket_close]"

subsection \<open>The lines of a run\<close>

text \<open>
  The lines that end a completed scan:
  \<^verbatim>\<open>
  if open_ports:
      typer.secho("Open ports:", fg=typer.colors.GREEN)
      typer.echo(", ".join(str(p) for p in open_ports))
  else:
      typer.secho("No open ports found in the specified range.", fg=typer.colors.YELLOW)
  \<close>
  and the two events every run starts with: the first line echoed and the call of the
  resolver.
\<close>

definition report :: "int list \<Rightarrow> event list" where
  "report ps = (if ps \<noteq> [] then [Echo Stdout Open_ports_header, Echo Stdout (Open_ports_line ps)]
                else [Echo Stdout No_open_ports])"

definition preamble :: "request \<Rightarrow> event list" where
  "preamble r = [Echo Stdout (Scanning (host r) (start_port r) (end_port r) (timeout r)),
                 Gethostbyname (host r)]"

subsection \<open>Concrete runs\<close>

text \<open>
  A network in which \<open>localhost\<close> resolves, the name \<open>a..b\<close> (an empty label) makes
  the resolver raise \<open>UnicodeError\<close> and every other name \<open>socket.gaierror\<close>; on
  the address of \<open>localhost\<close> port 7 accepts connections, port 9 makes \<open>connect_ex\<close>
  raise \<open>socket.error\<close>, and every other port refuses (\<open>ECONNREFUSED\<close> is 111).
\<close>

definition env7 :: env where
  "env7 = \<lparr>gethostbyname = (\<lambda>h. if h = ''localhost'' then Inr ''127.0.0.1''
                                else if h = ''a..b'' then Inl UnicodeError else Inl gaierror),
           connect = (\<lambda>a p t. if p = 7 then Errno 0 else if p = 9 then Socket_error else Errno 111)\<rparr>"


text \<open>
  A machine on which every socket can be created and which accepts the finite timeouts
  from 0 to 9223372036 seconds; and one that differs only in having no descriptor left
  in the pass for port 6.
\<close>

definition machine_ok :: machine where
  "machine_ok =
     \<lparr>socket_socket = (\<lambda>p. None),
      settimeout = (\<lambda>t. case t of
                          Finite x \<Rightarrow> (if x < 0 then Some ValueError
                                       else if x \<le> 9223372036 then None else Some OverflowError)
                        | Not_a_number \<Rightarrow> Some ValueError
                        | _ \<Rightarrow> Some OverflowError)\<rparr>"

definition machine_emfile :: machine where
  "machine_emfile = machine_ok\<lparr>socket_socket := (\<lambda>p. if p = 6 then Some socket_error else None)\<rparr>"

definition req_5_9 :: request where
  "req_5_9 = \<lparr>host = ''localhost'', start_port = 5, end_port = 9, timeout = Finite (1/2)\<rparr>"

definition req_100_50 :: request where
  "req_100_50 = \<lparr>host = ''localhost'', start_port = 100, end_port = 50, timeout = Finite (1/2)\<rparr>"

definition req_8_8 :: request where
  "req_8_8 = \<lparr>host = ''localhost'', start_port = 8, end_port = 8, timeout = Finite (1/2)\<rparr>"

definition req_unknown :: request where
  "req_unknown = \<lparr>host = ''this-host-does-not-exist.invalid'', start_port = 1,
                   end_port = 1024, timeout = Finite (1/2)\<rparr>"

definition req_empty_label :: request where
  "req_empty_label = \<lparr>host = ''a..b'', start_port = 1, end_port = 1024, timeout = Finite (1/2)\<rparr>"

definition req_top :: request where
  "req_top = \<lparr>host = ''localhost'', start_port = 65535, end_port = 65537,
               timeout = Finite (1/2)\<rparr>"

section \<open>Properties of the loop\<close>

lemma probe_None:
  assumes "probe m e a t p s = (None, s')"
  shows "open_ports s' = open_ports s @ (if connect_ex e a p t = Inr 0 then [p] else [])"
    and "trace s' = trace s @ probe_events a t p"
  using assms
  by (auto simp: probe_def emit_def probe_events_def Let_def
      split: sum.splits if_splits option.splits)

lemma probe_None_valid:
  assumes "probe m e a t p s = (None, s')"
  shows "socket_socket m p = None \<and> settimeout m t = None \<and> 0 \<le> p \<and> p \<le> 65535"
  using assms
  by (auto simp: probe_def connect_ex_def Let_def split: sum.splits if_splits option.splits)

lemma probe_created:
  assumes "socket_socket m p = None" and "probe m e a t p s = (x, s')"
  shows "sockets_opened (trace s') = Suc (sockets_opened (trace s))"
    and "sockets_closed (trace s') = Suc (sockets_closed (trace s))"
  using assms
  by (auto simp: probe_def emit_def sockets_opened_def sockets_closed_def Let_def
      split: sum.splits if_splits option.splits)

lemma probe_not_created:
  assumes "socket_socket m p = Some y"
  shows "probe m e a t p s = (Some y, s)"
  using assms by (simp add: probe_def)

lemma probe_sockets:
  assumes "probe m e a t p s = (x, s')"
  shows "\<exists>n. sockets_opened (trace s') = sockets_opened (trace s) + n
           \<and> sockets_closed (trace s') = sockets_closed (trace s) + n \<and> n \<le> 1"
proof (cases "socket_socket m p")
  case None
  from probe_created [OF None assms]
  have "sockets_opened (trace s') = sockets_opened (trace s) + 1
      \<and> sockets_closed (trace s') = sockets_closed (trace s) + 1 \<and> (1::nat) \<le> 1"
    by simp
  then show ?thesis by blast
next
  case (Some y)
  from probe_not_created [OF Some, of e a t s] assms have "s' = s" by simp
  then have "sockets_opened (trace s') = sockets_opened (trace s) + 0
      \<and> sockets_closed (trace s') = sockets_closed (trace s) + 0 \<and> (0::nat) \<le> 1"
    by simp
  then show ?thesis by blast
qed

lemma probe_valid:
  assumes "socket_socket m p = None" "settimeout m t = None" "0 \<le> p" "p \<le> 65535"
  shows "fst (probe m e a t p s) = None"
  using assms
  by (auto simp: probe_def connect_ex_def Let_def split: sum.splits connect_outcome.splits)

lemma scan_loop_None:
  assumes "scan_loop m e a t ps s = (None, s')"
  shows "open_ports s' = open_ports s @ filter (\<lambda>p. connect_ex e a p t = Inr 0) ps
       \<and> trace s' = trace s @ concat (map (probe_events a t) ps)"
  using assms
proof (induction ps arbitrary: s)
  case Nil
  then show ?case by simp
next
  case (Cons p ps)
  obtain x s1 where p1: "probe m e a t p s = (x, s1)" by (cases "probe m e a t p s")
  with Cons.prems have x: "x = None" and rest: "scan_loop m e a t ps s1 = (None, s')"
    by (auto split: option.splits)
  from p1 x have "probe m e a t p s = (None, s1)" by simp
  note h = probe_None [OF this]
  from Cons.IH [OF rest] h show ?case by simp
qed

lemma scan_loop_None_valid:
  assumes "scan_loop m e a t ps s = (None, s')"
  shows "\<forall>p\<in>set ps. socket_socket m p = None \<and> settimeout m t = None \<and> 0 \<le> p \<and> p \<le> 65535"
  using assms
proof (induction ps arbitrary: s)
  case Nil
  then show ?case by simp
next
  case (Cons p ps)
  obtain x s1 where p1: "probe m e a t p s = (x, s1)" by (cases "probe m e a t p s")
  with Cons.prems have x: "x = None" and rest: "scan_loop m e a t ps s1 = (None, s')"
    by (auto split: option.splits)
  from p1 x have "probe m e a t p s = (None, s1)" by simp
  note h = probe_None_valid [OF this]
  from Cons.IH [OF rest] h show ?case by simp
qed

lemma scan_loop_valid:
  assumes "settimeout m t = None"
    and "\<forall>p\<in>set ps. socket_socket m p = None \<and> 0 \<le> p \<and> p \<le> 65535"
  shows "fst (scan_loop m e a t ps s) = None"
  using assms
proof (induction ps arbitrary: s)
  case Nil
  then show ?case by simp
next
  case (Cons p ps)
  have "fst (probe m e a t p s) = None" using Cons.prems by (simp add: probe_valid)
  then obtain s1 where "probe m e a t p s = (None, s1)" by (cases "probe m e a t p s") auto
  then show ?case using Cons by simp
qed

lemma scan_loop_sockets:
  assumes "scan_loop m e a t ps s = (x, s')"
  shows "\<exists>n. sockets_opened (trace s') = sockets_opened (trace s) + n
           \<and> sockets_closed (trace s') = sockets_closed (trace s) + n \<and> n \<le> length ps"
  using assms
proof (induction ps arbitrary: s)
  case Nil
  then show ?case by simp
next
  case (Cons p ps)
  obtain y s1 where p1: "probe m e a t p s = (y, s1)" by (cases "probe m e a t p s")
  from probe_sockets [OF p1] obtain k where
    k: "sockets_opened (trace s1) = sockets_opened (trace s) + k"
       "sockets_closed (trace s1) = sockets_closed (trace s) + k" "k \<le> 1" by blast
  show ?case
  proof (cases y)
    case None
    with p1 Cons.prems have "scan_loop m e a t ps s1 = (x, s')" by simp
    from Cons.IH [OF this] obtain n where
      "sockets_opened (trace s') = sockets_opened (trace s1) + n"
      "sockets_closed (trace s') = sockets_closed (trace s1) + n" "n \<le> length ps" by blast
    with k have "sockets_opened (trace s') = sockets_opened (trace s) + (k + n)
       \<and> sockets_closed (trace s') = sockets_closed (trace s) + (k + n)
       \<and> k + n \<le> length (p # ps)"
      by simp
    then show ?thesis by blast
  next
    case (Some z)
    with p1 Cons.prems have "s' = s1" by simp
    with k have "sockets_opened (trace s') = sockets_opened (trace s) + k
       \<and> sockets_closed (trace s') = sockets_closed (trace s) + k \<and> k \<le> length (p # ps)"
      by simp
    then show ?thesis by blast
  qed
qed

lemma connect_ex_open:
  "connect_ex e a p t = Inr 0 \<longleftrightarrow> 0 \<le> p \<and> p \<le> 65535 \<and> connect e a p t = Errno 0"
  by (auto simp: connect_ex_def split: connect_outcome.splits)

lemma probe_resolver:
  "resolver_calls (trace (snd (probe m e a t p s))) = resolver_calls (trace s)"
  by (auto simp: probe_def emit_def resolver_calls_def Let_def split: sum.splits option.splits)

lemma scan_loop_resolver:
  "resolver_calls (trace (snd (scan_loop m e a t ps s))) = resolver_calls (trace s)"
proof (induction ps arbitrary: s)
  case Nil
  then show ?case by simp
next
  case (Cons p ps)
  obtain x s1 where p1: "probe m e a t p s = (x, s1)" by (cases "probe m e a t p s")
  have "resolver_calls (trace s1) = resolver_calls (trace s)"
    using probe_resolver [of m e a t p s] p1 by simp
  with Cons.IH [of s1] p1 show ?case by (cases x) simp_all
qed

lemma scan_loop_trace:
  "\<exists>evs. trace (snd (scan_loop m e a t ps s)) = trace s @ evs"
proof (induction ps arbitrary: s)
  case Nil
  then show ?case by simp
next
  case (Cons p ps)
  obtain x s1 where p1: "probe m e a t p s = (x, s1)" by (cases "probe m e a t p s")
  then have "\<exists>evs. trace s1 = trace s @ evs"
    by (auto simp: probe_def emit_def Let_def split: sum.splits if_splits option.splits)
  then obtain evs1 where e1: "trace s1 = trace s @ evs1" by blast
  show ?case
  proof (cases x)
    case None
    from Cons.IH [of s1] obtain evs2 where
      "trace (snd (scan_loop m e a t ps s1)) = trace s1 @ evs2" by blast
    with p1 None e1 show ?thesis by simp
  next
    case (Some y)
    with p1 e1 show ?thesis by simp
  qed
qed


lemma probed_ports_append: "probed_ports (xs @ ys) = probed_ports xs @ probed_ports ys"
  by (induction xs rule: probed_ports.induct) simp_all

lemma probed_ports_probes: "probed_ports (concat (map (probe_events a t) ps)) = ps"
  by (induction ps) (simp_all add: probe_events_def)

lemma probed_ports_report: "probed_ports (report ps) = []"
  by (simp add: report_def)

lemma probed_ports_preamble: "probed_ports (preamble r) = []"
  by (simp add: preamble_def)

lemma sockets_opened_probes: "sockets_opened (concat (map (probe_events a t) ps)) = length ps"
  by (induction ps) (simp_all add: probe_events_def sockets_opened_def)

lemma sockets_closed_probes: "sockets_closed (concat (map (probe_events a t) ps)) = length ps"
  by (induction ps) (simp_all add: probe_events_def sockets_closed_def)

lemma sockets_append:
  "sockets_opened (xs @ ys) = sockets_opened xs + sockets_opened ys"
  "sockets_closed (xs @ ys) = sockets_closed xs + sockets_closed ys"
  by (simp_all add: sockets_opened_def sockets_closed_def)

lemma sockets_preamble_report:
  "sockets_opened (preamble r) = 0" "sockets_closed (preamble r) = 0"
  "sockets_opened (report ps) = 0" "sockets_closed (report ps) = 0"
  by (simp_all add: sockets_opened_def sockets_closed_def preamble_def report_def)

lemma report_last: "last (xs @ report []) = Echo Stdout No_open_ports"
  by (simp add: report_def)

lemma report_no_diagnostic: "Echo Stderr Resolve_failed \<notin> set (report ps)"
  by (simp add: report_def)

lemma probes_no_echo: "Echo st msg \<notin> set (concat (map (probe_events a t) ps))"
  by (induction ps) (simp_all add: probe_events_def)

section \<open>Properties of the command\<close>

lemma port_scan_unresolved:
  assumes "gethostbyname e (host r) = Inl x"
  shows "port_scan m e r =
    \<lparr>outcome = (if x = gaierror then Exit 1 else Uncaught x),
     effects = preamble r @ (if x = gaierror then [Echo Stderr Resolve_failed] else [])\<rparr>"
  using assms by (simp add: port_scan_def resolve_host_def emit_def preamble_def Let_def)

lemma port_scan_resolved:
  assumes "gethostbyname e (host r) = Inr a"
  shows "port_scan m e r =
    (case scan_loop m e a (timeout r) [start_port r..end_port r]
            \<lparr>open_ports = [], trace = preamble r\<rparr> of
       (Some x, s2) \<Rightarrow> \<lparr>outcome = Uncaught x, effects = trace s2\<rparr>
     | (None, s2) \<Rightarrow> \<lparr>outcome = Completed (open_ports s2),
                        effects = trace s2 @ report (open_ports s2)\<rparr>)"
  using assms
  by (simp add: port_scan_def resolve_host_def emit_def preamble_def report_def Let_def
      split: prod.splits option.splits)

lemma port_scan_Completed:
  assumes "outcome (port_scan m e r) = Completed ps"
  shows "\<exists>a. gethostbyname e (host r) = Inr a
           \<and> ps = filter (\<lambda>p. connect e a p (timeout r) = Errno 0) [start_port r..end_port r]
           \<and> effects (port_scan m e r) =
               preamble r @ concat (map (probe_events a (timeout r)) [start_port r..end_port r])
                 @ report ps"
proof (cases "gethostbyname e (host r)")
  case (Inl x)
  from port_scan_unresolved [OF this, of m] assms show ?thesis by (simp split: if_splits)
next
  case (Inr a)
  let ?s = "\<lparr>open_ports = [], trace = preamble r\<rparr>"
  obtain x s2 where sl: "scan_loop m e a (timeout r) [start_port r..end_port r] ?s = (x, s2)"
    by (cases "scan_loop m e a (timeout r) [start_port r..end_port r] ?s")
  with port_scan_resolved [OF Inr, of m] assms have x: "x = None" and ps: "ps = open_ports s2"
    and ef: "effects (port_scan m e r) = trace s2 @ report ps"
    by (auto split: option.splits)
  from sl x have sl': "scan_loop m e a (timeout r) [start_port r..end_port r] ?s = (None, s2)"
    by simp
  from scan_loop_None_valid [OF sl']
  have "filter (\<lambda>p. connect_ex e a p (timeout r) = Inr 0) [start_port r..end_port r]
      = filter (\<lambda>p. connect e a p (timeout r) = Errno 0) [start_port r..end_port r]"
    by (intro filter_cong) (auto simp: connect_ex_open)
  with scan_loop_None [OF sl'] ps ef Inr show ?thesis by simp
qed

lemma port_scan_valid:
  assumes "gethostbyname e (host r) = Inr a" "settimeout m (timeout r) = None"
    "\<forall>p\<in>{start_port r..end_port r}. socket_socket m p = None"
    "0 \<le> start_port r" "end_port r \<le> 65535"
  shows "outcome (port_scan m e r) =
     Completed (filter (\<lambda>p. connect e a p (timeout r) = Errno 0) [start_port r..end_port r])"
proof -
  let ?s = "\<lparr>open_ports = [], trace = preamble r\<rparr>"
  have "fst (scan_loop m e a (timeout r) [start_port r..end_port r] ?s) = None"
    using assms by (intro scan_loop_valid) auto
  then obtain s2 where
    sl: "scan_loop m e a (timeout r) [start_port r..end_port r] ?s = (None, s2)"
    by (cases "scan_loop m e a (timeout r) [start_port r..end_port r] ?s") auto
  with port_scan_resolved [OF assms(1), of m]
  have "outcome (port_scan m e r) = Completed (open_ports s2)"
    by simp
  then obtain ps where c: "outcome (port_scan m e r) = Completed ps" by blast
  from port_scan_Completed [OF c] assms(1) c show ?thesis by auto
qed

lemma effects_valid:
  assumes "gethostbyname e (host r) = Inr a" "settimeout m (timeout r) = None"
    "\<forall>p\<in>{start_port r..end_port r}. socket_socket m p = None"
    "0 \<le> start_port r" "end_port r \<le> 65535"
  shows "effects (port_scan m e r) =
     preamble r @ concat (map (probe_events a (timeout r)) [start_port r..end_port r])
       @ report (filter (\<lambda>p. connect e a p (timeout r) = Errno 0) [start_port r..end_port r])"
  using port_scan_Completed [OF port_scan_valid [OF assms]] assms(1) by auto

lemma port_scan_sockets:
  "sockets_opened (effects (port_scan m e r)) = sockets_closed (effects (port_scan m e r))
   \<and> sockets_opened (effects (port_scan m e r)) \<le> length [start_port r..end_port r]"
proof (cases "gethostbyname e (host r)")
  case (Inl x)
  from port_scan_unresolved [OF this, of m] show ?thesis
    by (simp add: sockets_opened_def sockets_closed_def preamble_def)
next
  case (Inr a)
  let ?s = "\<lparr>open_ports = [], trace = preamble r\<rparr>"
  obtain x s2 where sl: "scan_loop m e a (timeout r) [start_port r..end_port r] ?s = (x, s2)"
    by (cases "scan_loop m e a (timeout r) [start_port r..end_port r] ?s")
  from scan_loop_sockets [OF sl]
  have eq: "sockets_opened (trace s2) = sockets_closed (trace s2)
      \<and> sockets_opened (trace s2) \<le> length [start_port r..end_port r]"
    by (auto simp: sockets_preamble_report)
  show ?thesis
  proof (cases x)
    case None
    with port_scan_resolved [OF Inr, of m] sl eq show ?thesis
      by (simp add: sockets_append sockets_preamble_report)
  next
    case (Some y)
    with port_scan_resolved [OF Inr, of m] sl eq show ?thesis
      by simp
  qed
qed

lemma port_scan_resolver_calls: "resolver_calls (effects (port_scan m e r)) = 1"
proof (cases "gethostbyname e (host r)")
  case (Inl x)
  from port_scan_unresolved [OF this, of m] show ?thesis
    by (simp add: resolver_calls_def preamble_def)
next
  case (Inr a)
  let ?s = "\<lparr>open_ports = [], trace = preamble r\<rparr>"
  obtain x s2 where sl: "scan_loop m e a (timeout r) [start_port r..end_port r] ?s = (x, s2)"
    by (cases "scan_loop m e a (timeout r) [start_port r..end_port r] ?s")
  from scan_loop_resolver [of m e a "timeout r" "[start_port r..end_port r]" ?s] sl
  have eq: "resolver_calls (trace s2) = 1"
    by (simp add: resolver_calls_def preamble_def)
  show ?thesis
  proof (cases x)
    case None
    with port_scan_resolved [OF Inr, of m] sl eq show ?thesis
      by (simp add: resolver_calls_def report_def)
  next
    case (Some y)
    with port_scan_resolved [OF Inr, of m] sl eq show ?thesis
      by simp
  qed
qed

lemma port_scan_starts: "\<exists>evs. effects (port_scan m e r) = preamble r @ evs"
proof (cases "gethostbyname e (host r)")
  case (Inl x)
  from port_scan_unresolved [OF this, of m] show ?thesis by simp
next
  case (Inr a)
  let ?s = "\<lparr>open_ports = [], trace = preamble r\<rparr>"
  obtain x s2 where sl: "scan_loop m e a (timeout r) [start_port r..end_port r] ?s = (x, s2)"
    by (cases "scan_loop m e a (timeout r) [start_port r..end_port r] ?s")
  from scan_loop_trace [of m e a "timeout r" "[start_port r..end_port r]" ?s] sl
  obtain evs where "trace s2 = preamble r @ evs" by auto
  with port_scan_resolved [OF Inr, of m] sl show ?thesis by (cases x) simp_all
qed

lemma port_scan_reversed:
  assumes "end_port r < start_port r" "gethostbyname e (host r) = Inr a"
  shows "port_scan m e r =
    \<lparr>outcome = Completed [], effects = preamble r @ [Echo Stdout No_open_ports]\<rparr>"
  using assms port_scan_resolved [OF assms(2), of m] by (simp add: report_def)

text \<open>
  Runs in \<open>env7\<close> on \<open>machine_ok\<close>: ports 5 to 9, of which only 7 is open, and port 8
  alone, which is closed.
\<close>

lemma machine_ok_accepts: "settimeout machine_ok (Finite (1/2)) = None"
  "socket_socket machine_ok p = None"
  by (simp_all add: machine_ok_def)

lemma run_5_9: "outcome (port_scan machine_ok env7 req_5_9) = Completed [7]"
  using port_scan_valid [of env7 req_5_9 "''127.0.0.1''" machine_ok]
  by (simp add: env7_def req_5_9_def machine_ok_accepts)

lemma run_8_8: "outcome (port_scan machine_ok env7 req_8_8) = Completed []"
  using port_scan_valid [of env7 req_8_8 "''127.0.0.1''" machine_ok]
  by (simp add: env7_def req_8_8_def machine_ok_accepts)

text \<open>
  Two runs that end on an exception: ports 65535 to 65537, where \<open>connect_ex\<close> rejects
  port 65536, and ports 5 to 9 on \<open>machine_emfile\<close>, where no socket can be created
  for port 6.
\<close>

lemma run_top:
  "port_scan machine_ok env7 req_top =
     \<lparr>outcome = Uncaught OverflowError,
      effects = preamble req_top @ probe_events ''127.0.0.1'' (Finite (1/2)) 65535
        @ [Socket_open, Settimeout (Finite (1/2)), Connect_ex ''127.0.0.1'' 65536, Socket_close]\<rparr>"
  by (simp add: port_scan_def resolve_host_def env7_def req_top_def machine_ok_def probe_def
      connect_ex_def emit_def preamble_def probe_events_def Let_def)

lemma run_emfile:
  "port_scan machine_emfile env7 req_5_9 =
     \<lparr>outcome = Uncaught socket_error,
      effects = preamble req_5_9 @ probe_events ''127.0.0.1'' (Finite (1/2)) 5\<rparr>"
  by (simp add: port_scan_def resolve_host_def env7_def req_5_9_def machine_emfile_def
      machine_ok_def probe_def connect_ex_def emit_def preamble_def probe_events_def Let_def)

section \<open>The claims\<close>

subsection \<open>C1: the open ports are ascending and within the range\<close>

text \<open>
  C1. For every request with \<open>start_port \<le> end_port\<close>, the open-port sequence that the
  scan returns is strictly ascending, hence free of duplicates, and each of its elements
  lies between \<open>start_port\<close> and \<open>end_port\<close>.
\<close>

theorem open_ports_ascending_in_range:
  assumes "start_port r \<le> end_port r" and "outcome (port_scan m e r) = Completed ps"
  shows "sorted_wrt (<) ps \<and> distinct ps \<and> (\<forall>p\<in>set ps. start_port r \<le> p \<and> p \<le> end_port r)"
proof -
  from port_scan_Completed [OF assms(2)] obtain a where
    ps: "ps = filter (\<lambda>p. connect e a p (timeout r) = Errno 0) [start_port r..end_port r]"
    by blast
  have "sorted_wrt (<) ps" unfolding ps by (rule sorted_wrt_filter) simp
  moreover have "distinct ps" unfolding ps by simp
  moreover have "\<forall>p\<in>set ps. start_port r \<le> p \<and> p \<le> end_port r" unfolding ps by simp
  ultimately show ?thesis by blast
qed

theorem open_ports_ascending_in_range_witness:
  "start_port req_5_9 \<le> end_port req_5_9
   \<and> outcome (port_scan machine_ok env7 req_5_9) = Completed [7]
   \<and> sorted_wrt (<) [7::int] \<and> distinct [7::int]
   \<and> start_port req_5_9 \<le> 7 \<and> 7 \<le> end_port req_5_9"
proof -
  have h: "start_port req_5_9 \<le> end_port req_5_9" by (simp add: req_5_9_def)
  from open_ports_ascending_in_range [OF h run_5_9] h run_5_9 show ?thesis by simp
qed

subsection \<open>C2: a reversed range is not rejected\<close>

text \<open>
  C2 as stated fails: the source checks neither the order nor the bounds of the range. At
  \<open>start_port = 100\<close>, \<open>end_port = 50\<close> the scan echoes its first line, resolves the
  host, finds \<open>range(100, 51)\<close> empty and returns normally: the outcome is a completed
  scan with no open port and exit code 0, and a resolver call is among the effects.
\<close>

theorem reversed_range_counterexample:
  "end_port req_100_50 < start_port req_100_50
   \<and> outcome (port_scan machine_ok env7 req_100_50) = Completed []
   \<and> exit_code (outcome (port_scan machine_ok env7 req_100_50)) = 0
   \<and> filter is_network (effects (port_scan machine_ok env7 req_100_50))
       = [Gethostbyname ''localhost'']"
proof -
  have lt: "end_port req_100_50 < start_port req_100_50" by (simp add: req_100_50_def)
  have res: "gethostbyname env7 (host req_100_50) = Inr ''127.0.0.1''"
    by (simp add: env7_def req_100_50_def)
  from port_scan_reversed [OF lt res, of machine_ok] lt show ?thesis
    by (simp add: preamble_def req_100_50_def)
qed

text \<open>
  C2, as the code has it. There is no validation step and no range error: every request,
  whatever its bounds, begins with the scanning line and the call of the resolver, which
  is consulted exactly once. For a request with \<open>end_port < start_port\<close> no port is
  probed and no socket is opened; when the host resolves, the scan completes with the
  empty open-port sequence, the line \<open>No_open_ports\<close> and exit code 0, and when the
  resolver raises, the scan ends with exit code 1 (\<open>Exit 1\<close> on \<open>socket.gaierror\<close>).
\<close>

theorem no_range_validation:
  "resolver_calls (effects (port_scan m e r)) = 1
   \<and> (\<exists>evs. effects (port_scan m e r) = preamble r @ evs)
   \<and> (end_port r < start_port r \<longrightarrow>
        probed_ports (effects (port_scan m e r)) = []
        \<and> sockets_opened (effects (port_scan m e r)) = 0
        \<and> (case gethostbyname e (host r) of
             Inl x \<Rightarrow> outcome (port_scan m e r) = (if x = gaierror then Exit 1 else Uncaught x)
                       \<and> exit_code (outcome (port_scan m e r)) = 1
           | Inr a \<Rightarrow> outcome (port_scan m e r) = Completed []
                       \<and> exit_code (outcome (port_scan m e r)) = 0
                       \<and> effects (port_scan m e r) = preamble r @ [Echo Stdout No_open_ports]))"
proof -
  have "end_port r < start_port r \<longrightarrow>
        probed_ports (effects (port_scan m e r)) = []
        \<and> sockets_opened (effects (port_scan m e r)) = 0
        \<and> (case gethostbyname e (host r) of
             Inl x \<Rightarrow> outcome (port_scan m e r) = (if x = gaierror then Exit 1 else Uncaught x)
                       \<and> exit_code (outcome (port_scan m e r)) = 1
           | Inr a \<Rightarrow> outcome (port_scan m e r) = Completed []
                       \<and> exit_code (outcome (port_scan m e r)) = 0
                       \<and> effects (port_scan m e r) = preamble r @ [Echo Stdout No_open_ports])"
  proof
    assume lt: "end_port r < start_port r"
    show "probed_ports (effects (port_scan m e r)) = []
        \<and> sockets_opened (effects (port_scan m e r)) = 0
        \<and> (case gethostbyname e (host r) of
             Inl x \<Rightarrow> outcome (port_scan m e r) = (if x = gaierror then Exit 1 else Uncaught x)
                       \<and> exit_code (outcome (port_scan m e r)) = 1
           | Inr a \<Rightarrow> outcome (port_scan m e r) = Completed []
                       \<and> exit_code (outcome (port_scan m e r)) = 0
                       \<and> effects (port_scan m e r) = preamble r @ [Echo Stdout No_open_ports])"
    proof (cases "gethostbyname e (host r)")
      case (Inl x)
      from port_scan_unresolved [OF this, of m] Inl show ?thesis
        by (simp add: preamble_def sockets_opened_def)
    next
      case (Inr a)
      from port_scan_reversed [OF lt this, of m] Inr show ?thesis
        by (simp add: preamble_def sockets_opened_def)
    qed
  qed
  with port_scan_resolver_calls [of m e r] port_scan_starts [of m e r] show ?thesis by blast
qed

theorem no_range_validation_witness:
  "end_port req_100_50 < start_port req_100_50
   \<and> resolver_calls (effects (port_scan machine_ok env7 req_100_50)) = 1
   \<and> probed_ports (effects (port_scan machine_ok env7 req_100_50)) = []
   \<and> sockets_opened (effects (port_scan machine_ok env7 req_100_50)) = 0
   \<and> outcome (port_scan machine_ok env7 req_100_50) = Completed []
   \<and> effects (port_scan machine_ok env7 req_100_50)
       = preamble req_100_50 @ [Echo Stdout No_open_ports]"
proof -
  have lt: "end_port req_100_50 < start_port req_100_50" by (simp add: req_100_50_def)
  have res: "gethostbyname env7 (host req_100_50) = Inr ''127.0.0.1''"
    by (simp add: env7_def req_100_50_def)
  from no_range_validation [of machine_ok env7 req_100_50] lt res show ?thesis
    by (simp add: preamble_def resolver_calls_def sockets_opened_def)
qed

subsection \<open>C3: a host that does not resolve\<close>

text \<open>
  C3. When the resolver fails, with whatever exception, the scan fails as a whole and
  once: it never returns an open-port sequence, its exit code is not zero, the resolver
  has been consulted exactly once, no port has been probed and no socket opened. On
  \<open>socket.gaierror\<close> the failure is \<open>Exit 1\<close> after one diagnostic line on the error
  stream; any other exception of the resolver leaves the command uncaught, after the
  resolver call and with no further effect.
\<close>

theorem resolution_failure_aborts:
  assumes "gethostbyname e (host r) = Inl x"
  shows "outcome (port_scan m e r) = (if x = gaierror then Exit 1 else Uncaught x)
     \<and> (\<forall>ps. outcome (port_scan m e r) \<noteq> Completed ps)
     \<and> exit_code (outcome (port_scan m e r)) \<noteq> 0
     \<and> effects (port_scan m e r) =
         [Echo Stdout (Scanning (host r) (start_port r) (end_port r) (timeout r)),
          Gethostbyname (host r)] @ (if x = gaierror then [Echo Stderr Resolve_failed] else [])
     \<and> resolver_calls (effects (port_scan m e r)) = 1
     \<and> probed_ports (effects (port_scan m e r)) = []
     \<and> sockets_opened (effects (port_scan m e r)) = 0"
  using port_scan_unresolved [OF assms, of m]
  by (simp add: preamble_def resolver_calls_def sockets_opened_def)

theorem resolution_failure_aborts_witness:
  "gethostbyname env7 (host req_unknown) = Inl gaierror
   \<and> outcome (port_scan machine_ok env7 req_unknown) = Exit 1
   \<and> resolver_calls (effects (port_scan machine_ok env7 req_unknown)) = 1
   \<and> probed_ports (effects (port_scan machine_ok env7 req_unknown)) = []
   \<and> sockets_opened (effects (port_scan machine_ok env7 req_unknown)) = 0
   \<and> gethostbyname env7 (host req_empty_label) = Inl UnicodeError
   \<and> outcome (port_scan machine_ok env7 req_empty_label) = Uncaught UnicodeError
   \<and> resolver_calls (effects (port_scan machine_ok env7 req_empty_label)) = 1
   \<and> probed_ports (effects (port_scan machine_ok env7 req_empty_label)) = []
   \<and> sockets_opened (effects (port_scan machine_ok env7 req_empty_label)) = 0"
proof -
  have h: "gethostbyname env7 (host req_unknown) = Inl gaierror"
    by (simp add: env7_def req_unknown_def)
  have u: "gethostbyname env7 (host req_empty_label) = Inl UnicodeError"
    by (simp add: env7_def req_empty_label_def)
  from resolution_failure_aborts [OF h, of machine_ok]
  have a: "outcome (port_scan machine_ok env7 req_unknown) = Exit 1" by simp
  from resolution_failure_aborts [OF u, of machine_ok]
  have b: "outcome (port_scan machine_ok env7 req_empty_label) = Uncaught UnicodeError" by simp
  from resolution_failure_aborts [OF h, of machine_ok] resolution_failure_aborts [OF u, of machine_ok]
    a b h u show ?thesis by blast
qed

subsection \<open>C4: the scan is exhaustive when the library accepts the request\<close>

text \<open>
  C4 as stated fails: nothing keeps the ports within what \<open>connect_ex\<close> accepts. For
  \<open>start_port = 65535\<close>, \<open>end_port = 65537\<close> the host resolves, port 65535 is probed,
  \<open>connect_ex\<close> raises \<open>OverflowError\<close> for port 65536, which the handler does not
  catch, and the command ends there: port 65537 is never probed and no result is returned.
\<close>

theorem unaccepted_port_counterexample:
  "start_port req_top \<le> end_port req_top
   \<and> gethostbyname env7 (host req_top) = Inr ''127.0.0.1''
   \<and> [start_port req_top..end_port req_top] = [65535, 65536, 65537]
   \<and> outcome (port_scan machine_ok env7 req_top) = Uncaught OverflowError
   \<and> probed_ports (effects (port_scan machine_ok env7 req_top)) = [65535, 65536]"
proof -
  have "[start_port req_top..end_port req_top] = [65535, 65536, 65537]"
    by (simp add: req_top_def)
  moreover have "gethostbyname env7 (host req_top) = Inr ''127.0.0.1''"
    by (simp add: env7_def req_top_def)
  moreover have "start_port req_top \<le> end_port req_top" by (simp add: req_top_def)
  moreover have "probed_ports (effects (port_scan machine_ok env7 req_top)) = [65535, 65536]"
    by (simp add: run_top preamble_def probe_events_def)
  moreover have "outcome (port_scan machine_ok env7 req_top) = Uncaught OverflowError"
    by (simp add: run_top)
  ultimately show ?thesis by blast
qed

text \<open>
  C4, as the code has it. For a request with \<open>start_port \<le> end_port\<close> whose host
  resolves, whose ports lie within \<open>0..65535\<close>, whose timeout the library accepts and
  for whose ports the socket can be created, exactly one connection attempt is made for
  each port of \<open>[start_port..end_port]\<close>, in ascending order and whatever the attempts
  find, so an open port does not end the scan; the scan returns, and the lines of its
  report come after the events of the last probe. A range of one port gives one probe.
\<close>

theorem scan_exhaustive:
  assumes "gethostbyname e (host r) = Inr a" and "start_port r \<le> end_port r"
    and "0 \<le> start_port r" and "end_port r \<le> 65535"
    and "settimeout m (timeout r) = None"
    and "\<forall>p\<in>{start_port r..end_port r}. socket_socket m p = None"
  shows "probed_ports (effects (port_scan m e r)) = [start_port r..end_port r]
     \<and> length (probed_ports (effects (port_scan m e r))) = nat (end_port r - start_port r + 1)
     \<and> (\<exists>ps. outcome (port_scan m e r) = Completed ps
           \<and> effects (port_scan m e r) =
               preamble r @ concat (map (probe_events a (timeout r)) [start_port r..end_port r])
                 @ report ps)
     \<and> (start_port r = end_port r \<longrightarrow> probed_ports (effects (port_scan m e r)) = [start_port r])"
proof -
  note v = assms(1) assms(5) assms(6) assms(3) assms(4)
  have pp: "probed_ports (effects (port_scan m e r)) = [start_port r..end_port r]"
    using effects_valid [OF v]
    by (simp add: probed_ports_append probed_ports_probes probed_ports_report
        probed_ports_preamble)
  have ex: "\<exists>ps. outcome (port_scan m e r) = Completed ps
           \<and> effects (port_scan m e r) =
               preamble r @ concat (map (probe_events a (timeout r)) [start_port r..end_port r])
                 @ report ps"
    using effects_valid [OF v] port_scan_valid [OF v] by simp
  have one: "start_port r = end_port r \<longrightarrow> [start_port r..end_port r] = [start_port r]"
    by simp
  from pp ex one show ?thesis by simp
qed

theorem scan_exhaustive_witness:
  "gethostbyname env7 (host req_5_9) = Inr ''127.0.0.1''
   \<and> start_port req_5_9 \<le> end_port req_5_9 \<and> 0 \<le> start_port req_5_9
   \<and> end_port req_5_9 \<le> 65535 \<and> settimeout machine_ok (timeout req_5_9) = None
   \<and> socket_socket machine_ok 5 = None \<and> socket_socket machine_ok 9 = None
   \<and> outcome (port_scan machine_ok env7 req_5_9) = Completed [7]
   \<and> probed_ports (effects (port_scan machine_ok env7 req_5_9)) = [5, 6, 7, 8, 9]"
proof -
  have h: "gethostbyname env7 (host req_5_9) = Inr ''127.0.0.1''"
    "start_port req_5_9 \<le> end_port req_5_9" "0 \<le> start_port req_5_9"
    "end_port req_5_9 \<le> 65535" "settimeout machine_ok (timeout req_5_9) = None"
    "\<forall>p\<in>{start_port req_5_9..end_port req_5_9}. socket_socket machine_ok p = None"
    by (simp_all add: env7_def req_5_9_def machine_ok_def)
  have s: "socket_socket machine_ok 5 = None" "socket_socket machine_ok 9 = None"
    by (simp_all add: machine_ok_def)
  from scan_exhaustive [OF h, THEN conjunct1]
  have "probed_ports (effects (port_scan machine_ok env7 req_5_9)) = [5, 6, 7, 8, 9]"
    by (simp add: req_5_9_def)
  with h(1-5) s run_5_9 show ?thesis by blast
qed

subsection \<open>C5: a port is reported exactly when the connection was established\<close>

text \<open>
  C5. In a scan that returns, a port belongs to the open-port sequence if and only if it
  lies in the range and the connection attempt to the resolved address and that port,
  under the timeout of the request, was established (\<open>connect_ex\<close> returned \<open>0\<close>);
  an attempt that is refused, times out or fails otherwise never adds its port.
\<close>

theorem open_iff_connected:
  assumes "outcome (port_scan m e r) = Completed ps" and "gethostbyname e (host r) = Inr a"
  shows "p \<in> set ps \<longleftrightarrow>
     start_port r \<le> p \<and> p \<le> end_port r \<and> connect e a p (timeout r) = Errno 0"
proof -
  from port_scan_Completed [OF assms(1)] assms(2)
  have "ps = filter (\<lambda>p. connect e a p (timeout r) = Errno 0) [start_port r..end_port r]"
    by auto
  then show ?thesis by auto
qed

theorem open_iff_connected_witness:
  "outcome (port_scan machine_ok env7 req_5_9) = Completed [7]
   \<and> gethostbyname env7 (host req_5_9) = Inr ''127.0.0.1''
   \<and> connect env7 ''127.0.0.1'' 7 (timeout req_5_9) = Errno 0 \<and> (7::int) \<in> set [7]
   \<and> connect env7 ''127.0.0.1'' 6 (timeout req_5_9) = Errno 111 \<and> (6::int) \<notin> set [7]
   \<and> connect env7 ''127.0.0.1'' 9 (timeout req_5_9) = Socket_error \<and> (9::int) \<notin> set [7]"
proof -
  have h: "gethostbyname env7 (host req_5_9) = Inr ''127.0.0.1''"
    by (simp add: env7_def req_5_9_def)
  have c: "connect env7 ''127.0.0.1'' 7 (timeout req_5_9) = Errno 0"
    "connect env7 ''127.0.0.1'' 6 (timeout req_5_9) = Errno 111"
    "connect env7 ''127.0.0.1'' 9 (timeout req_5_9) = Socket_error"
    by (simp_all add: env7_def)
  from open_iff_connected [OF run_5_9 h, of 7] open_iff_connected [OF run_5_9 h, of 6]
    open_iff_connected [OF run_5_9 h, of 9] c
  have "(7::int) \<in> set [7] \<and> (6::int) \<notin> set [7] \<and> (9::int) \<notin> set [7]"
    by (simp add: req_5_9_def)
  with run_5_9 h c show ?thesis by blast
qed

subsection \<open>C6: failures of the connection attempt are absorbed\<close>

text \<open>
  C6 as stated fails: the handler encloses \<open>connect_ex\<close> only. The creation of the
  socket stands outside it, so when \<open>socket.socket\<close> raises an \<open>OSError\<close> in the pass
  for port 6 (no descriptor left), the error reaches the caller of the scan: the command
  ends on the uncaught exception after probing port 5, and ports 6 to 9 are not probed.
\<close>

theorem socket_creation_error_counterexample:
  "gethostbyname env7 (host req_5_9) = Inr ''127.0.0.1''
   \<and> socket_socket machine_emfile 6 = Some socket_error
   \<and> outcome (port_scan machine_emfile env7 req_5_9) = Uncaught socket_error
   \<and> probed_ports (effects (port_scan machine_emfile env7 req_5_9)) = [5]"
proof -
  have "gethostbyname env7 (host req_5_9) = Inr ''127.0.0.1''"
    by (simp add: env7_def req_5_9_def)
  moreover have "socket_socket machine_emfile 6 = Some socket_error"
    by (simp add: machine_emfile_def)
  moreover have "outcome (port_scan machine_emfile env7 req_5_9) = Uncaught socket_error"
    by (simp add: run_emfile)
  moreover have "probed_ports (effects (port_scan machine_emfile env7 req_5_9)) = [5]"
    by (simp add: run_emfile preamble_def probe_events_def)
  ultimately show ?thesis by blast
qed

text \<open>
  C6, as the code has it. What the handler absorbs are the failures of the connection
  attempt: a non-zero result of \<open>connect_ex\<close> (refusal, timeout, unreachable host) and a
  \<open>socket.error\<close> raised by it. When the host resolves, the ports lie within
  \<open>0..65535\<close>, the library accepts the timeout and the socket of each port can be
  created, then whatever the connection attempts answer, no pass of the loop raises, the
  scan returns normally with exit code 0, a port whose attempt was not established is
  absent from the result, and every port of the range is probed.
\<close>

theorem connect_failures_absorbed:
  assumes "gethostbyname e (host r) = Inr a" and "0 \<le> start_port r"
    and "end_port r \<le> 65535" and "settimeout m (timeout r) = None"
    and "\<forall>p\<in>{start_port r..end_port r}. socket_socket m p = None"
  shows "(\<forall>p\<in>{start_port r..end_port r}. \<forall>s. fst (probe m e a (timeout r) p s) = None)
     \<and> (\<exists>ps. outcome (port_scan m e r) = Completed ps
            \<and> (\<forall>p. connect e a p (timeout r) \<noteq> Errno 0 \<longrightarrow> p \<notin> set ps))
     \<and> (\<forall>x. outcome (port_scan m e r) \<noteq> Uncaught x)
     \<and> (\<forall>c. outcome (port_scan m e r) \<noteq> Exit c)
     \<and> exit_code (outcome (port_scan m e r)) = 0
     \<and> probed_ports (effects (port_scan m e r)) = [start_port r..end_port r]"
proof -
  note v = assms(1) assms(4) assms(5) assms(2) assms(3)
  have pr: "\<forall>p\<in>{start_port r..end_port r}. \<forall>s. fst (probe m e a (timeout r) p s) = None"
    using assms by (auto intro: probe_valid)
  have pp: "probed_ports (effects (port_scan m e r)) = [start_port r..end_port r]"
    using effects_valid [OF v]
    by (simp add: probed_ports_append probed_ports_probes probed_ports_report
        probed_ports_preamble)
  from port_scan_valid [OF v] pp
  have "(\<exists>ps. outcome (port_scan m e r) = Completed ps
            \<and> (\<forall>p. connect e a p (timeout r) \<noteq> Errno 0 \<longrightarrow> p \<notin> set ps))
     \<and> (\<forall>x. outcome (port_scan m e r) \<noteq> Uncaught x)
     \<and> (\<forall>c. outcome (port_scan m e r) \<noteq> Exit c)
     \<and> exit_code (outcome (port_scan m e r)) = 0
     \<and> probed_ports (effects (port_scan m e r)) = [start_port r..end_port r]"
    by simp
  with pr show ?thesis by blast
qed

theorem connect_failures_absorbed_witness:
  "gethostbyname env7 (host req_5_9) = Inr ''127.0.0.1''
   \<and> 0 \<le> start_port req_5_9 \<and> end_port req_5_9 \<le> 65535
   \<and> settimeout machine_ok (timeout req_5_9) = None
   \<and> socket_socket machine_ok 5 = None \<and> socket_socket machine_ok 9 = None
   \<and> connect env7 ''127.0.0.1'' 5 (timeout req_5_9) = Errno 111
   \<and> connect env7 ''127.0.0.1'' 9 (timeout req_5_9) = Socket_error
   \<and> outcome (port_scan machine_ok env7 req_5_9) = Completed [7]
   \<and> exit_code (outcome (port_scan machine_ok env7 req_5_9)) = 0
   \<and> probed_ports (effects (port_scan machine_ok env7 req_5_9)) = [5, 6, 7, 8, 9]"
proof -
  have h: "gethostbyname env7 (host req_5_9) = Inr ''127.0.0.1''"
    "0 \<le> start_port req_5_9" "end_port req_5_9 \<le> 65535"
    "settimeout machine_ok (timeout req_5_9) = None"
    "\<forall>p\<in>{start_port req_5_9..end_port req_5_9}. socket_socket machine_ok p = None"
    by (simp_all add: env7_def req_5_9_def machine_ok_def)
  have c: "connect env7 ''127.0.0.1'' 5 (timeout req_5_9) = Errno 111"
    "connect env7 ''127.0.0.1'' 9 (timeout req_5_9) = Socket_error"
    "socket_socket machine_ok 5 = None" "socket_socket machine_ok 9 = None"
    by (simp_all add: env7_def machine_ok_def)
  note t = connect_failures_absorbed [OF h]
  from t have x: "exit_code (outcome (port_scan machine_ok env7 req_5_9)) = 0" by blast
  from t have "probed_ports (effects (port_scan machine_ok env7 req_5_9))
      = [start_port req_5_9..end_port req_5_9]"
    by blast
  then have "probed_ports (effects (port_scan machine_ok env7 req_5_9)) = [5, 6, 7, 8, 9]"
    by (simp add: req_5_9_def)
  with h(1-4) c x run_5_9 show ?thesis by blast
qed

subsection \<open>C8: no open port is a success, a resolution failure is not\<close>

text \<open>
  C8. A scan that completes with no open port ends with the line \<open>No_open_ports\<close> on the
  standard output and exit code 0, prints no resolution diagnostic, and its host did
  resolve. A failure of the resolver is a different outcome: a non-zero exit code and no
  \<open>No_open_ports\<close> line; on \<open>socket.gaierror\<close> it is \<open>Exit 1\<close> with the diagnostic
  on the error stream as the last line.
\<close>

theorem empty_scan_is_success:
  "(outcome (port_scan m e r) = Completed [] \<longrightarrow>
      exit_code (outcome (port_scan m e r)) = 0
      \<and> last (effects (port_scan m e r)) = Echo Stdout No_open_ports
      \<and> Echo Stderr Resolve_failed \<notin> set (effects (port_scan m e r))
      \<and> (\<exists>a. gethostbyname e (host r) = Inr a))
   \<and> (gethostbyname e (host r) = Inl gaierror \<longrightarrow>
      outcome (port_scan m e r) = Exit 1
      \<and> exit_code (outcome (port_scan m e r)) \<noteq> 0
      \<and> last (effects (port_scan m e r)) = Echo Stderr Resolve_failed
      \<and> Echo Stdout No_open_ports \<notin> set (effects (port_scan m e r)))
   \<and> (gethostbyname e (host r) = Inl x \<longrightarrow>
      outcome (port_scan m e r) \<noteq> Completed []
      \<and> exit_code (outcome (port_scan m e r)) \<noteq> 0
      \<and> Echo Stdout No_open_ports \<notin> set (effects (port_scan m e r)))"
proof (intro conjI impI)
  assume c: "outcome (port_scan m e r) = Completed []"
  from port_scan_Completed [OF c] obtain a where
    a: "gethostbyname e (host r) = Inr a" and
    ef: "effects (port_scan m e r) =
           preamble r @ concat (map (probe_events a (timeout r)) [start_port r..end_port r])
             @ report []"
    by blast
  from c show "exit_code (outcome (port_scan m e r)) = 0" by simp
  from a show "\<exists>a. gethostbyname e (host r) = Inr a" by blast
  have "last (effects (port_scan m e r)) =
     last ((preamble r @ concat (map (probe_events a (timeout r)) [start_port r..end_port r]))
             @ report [])"
    unfolding ef by simp
  then show "last (effects (port_scan m e r)) = Echo Stdout No_open_ports"
    by (simp only: report_last)
  have "Echo Stderr Resolve_failed \<notin> set (preamble r)" by (simp add: preamble_def)
  with probes_no_echo [of Stderr Resolve_failed a "timeout r" "[start_port r..end_port r]"]
    report_no_diagnostic [of "[]"]
  show "Echo Stderr Resolve_failed \<notin> set (effects (port_scan m e r))"
    unfolding ef set_append Un_iff by blast
next
  assume n: "gethostbyname e (host r) = Inl gaierror"
  note u = port_scan_unresolved [OF n, of m]
  from u show "outcome (port_scan m e r) = Exit 1" by simp
  from u show "exit_code (outcome (port_scan m e r)) \<noteq> 0" by simp
  from u show "last (effects (port_scan m e r)) = Echo Stderr Resolve_failed" by simp
  from u show "Echo Stdout No_open_ports \<notin> set (effects (port_scan m e r))"
    by (simp add: preamble_def)
next
  assume n: "gethostbyname e (host r) = Inl x"
  note u = port_scan_unresolved [OF n, of m]
  from u show "outcome (port_scan m e r) \<noteq> Completed []" by simp
  from u show "exit_code (outcome (port_scan m e r)) \<noteq> 0" by simp
  from u show "Echo Stdout No_open_ports \<notin> set (effects (port_scan m e r))"
    by (simp add: preamble_def)
qed

theorem empty_scan_is_success_witness:
  "outcome (port_scan machine_ok env7 req_8_8) = Completed []
   \<and> exit_code (outcome (port_scan machine_ok env7 req_8_8)) = 0
   \<and> last (effects (port_scan machine_ok env7 req_8_8)) = Echo Stdout No_open_ports
   \<and> gethostbyname env7 (host req_unknown) = Inl gaierror
   \<and> outcome (port_scan machine_ok env7 req_unknown) = Exit 1
   \<and> exit_code (outcome (port_scan machine_ok env7 req_unknown)) = 1
   \<and> last (effects (port_scan machine_ok env7 req_unknown)) = Echo Stderr Resolve_failed
   \<and> gethostbyname env7 (host req_empty_label) = Inl UnicodeError
   \<and> exit_code (outcome (port_scan machine_ok env7 req_empty_label)) = 1"
proof -
  have n: "gethostbyname env7 (host req_unknown) = Inl gaierror"
    by (simp add: env7_def req_unknown_def)
  have u: "gethostbyname env7 (host req_empty_label) = Inl UnicodeError"
    by (simp add: env7_def req_empty_label_def)
  from empty_scan_is_success [of machine_ok env7 req_8_8] run_8_8
  have a: "exit_code (outcome (port_scan machine_ok env7 req_8_8)) = 0
     \<and> last (effects (port_scan machine_ok env7 req_8_8)) = Echo Stdout No_open_ports" by blast
  from empty_scan_is_success [of machine_ok env7 req_unknown] n
  have b: "outcome (port_scan machine_ok env7 req_unknown) = Exit 1
     \<and> last (effects (port_scan machine_ok env7 req_unknown)) = Echo Stderr Resolve_failed"
    by blast
  then have b1: "exit_code (outcome (port_scan machine_ok env7 req_unknown)) = 1" by simp
  from empty_scan_is_success [of machine_ok env7 req_empty_label UnicodeError] u
  have "exit_code (outcome (port_scan machine_ok env7 req_empty_label)) \<noteq> 0" by blast
  moreover from port_scan_unresolved [OF u, of machine_ok]
  have "outcome (port_scan machine_ok env7 req_empty_label) = Uncaught UnicodeError" by simp
  ultimately have c: "exit_code (outcome (port_scan machine_ok env7 req_empty_label)) = 1"
    by simp
  from a b b1 c n u run_8_8 show ?thesis by blast
qed

subsection \<open>C9: every socket opened is closed\<close>

text \<open>
  C9 as stated fails in its first part: a pass of the loop in which \<open>socket.socket\<close>
  raises opens no socket. On \<open>machine_emfile\<close> the pass for port 6 opens none, and the
  scan of the five ports 5 to 9 opens and closes one socket, that of port 5.
\<close>

theorem socket_not_created_counterexample:
  "socket_socket machine_emfile 6 = Some socket_error
   \<and> sockets_opened (trace (snd (probe machine_emfile env7 ''127.0.0.1'' (Finite (1/2)) 6
        \<lparr>open_ports = [], trace = []\<rparr>))) = 0
   \<and> length [start_port req_5_9..end_port req_5_9] = 5
   \<and> sockets_opened (effects (port_scan machine_emfile env7 req_5_9)) = 1
   \<and> sockets_closed (effects (port_scan machine_emfile env7 req_5_9)) = 1"
proof -
  have s: "socket_socket machine_emfile 6 = Some socket_error"
    by (simp add: machine_emfile_def)
  have "sockets_opened (trace (snd (probe machine_emfile env7 ''127.0.0.1'' (Finite (1/2)) 6
        \<lparr>open_ports = [], trace = []\<rparr>))) = 0"
    by (simp add: probe_not_created [OF s] sockets_opened_def)
  moreover have "length [start_port req_5_9..end_port req_5_9] = 5"
    by (simp add: req_5_9_def)
  moreover have "sockets_opened (effects (port_scan machine_emfile env7 req_5_9)) = 1"
    by (simp add: run_emfile preamble_def probe_events_def sockets_opened_def)
  moreover have "sockets_closed (effects (port_scan machine_emfile env7 req_5_9)) = 1"
    by (simp add: run_emfile preamble_def probe_events_def sockets_closed_def)
  ultimately show ?thesis using s by blast
qed

text \<open>
  C9, as the code has it. A pass of the loop opens at most one socket: exactly one when
  \<open>socket.socket\<close> succeeds, and then it closes exactly one, whichever way the body is
  left (connection established, refused, timed out, \<open>socket.error\<close>, or an exception
  that is not caught); none when \<open>socket.socket\<close> raises, and then the pass has no
  effect at all. Hence no run leaks a descriptor: every run of the command has closed as
  many sockets as it has opened, at most one per port of the range, and a scan that
  returns has opened and closed exactly as many sockets as the range has ports.
\<close>

theorem sockets_balanced:
  "(socket_socket m p = None \<longrightarrow>
      sockets_opened (trace (snd (probe m e a t p s))) = Suc (sockets_opened (trace s))
      \<and> sockets_closed (trace (snd (probe m e a t p s))) = Suc (sockets_closed (trace s)))
   \<and> (socket_socket m p \<noteq> None \<longrightarrow> snd (probe m e a t p s) = s)
   \<and> sockets_opened (effects (port_scan m e r)) = sockets_closed (effects (port_scan m e r))
   \<and> sockets_opened (effects (port_scan m e r)) \<le> length [start_port r..end_port r]
   \<and> (outcome (port_scan m e r) = Completed ps \<longrightarrow>
        sockets_opened (effects (port_scan m e r)) = length [start_port r..end_port r]
        \<and> sockets_closed (effects (port_scan m e r)) = length [start_port r..end_port r])"
proof -
  obtain x s' where p1: "probe m e a t p s = (x, s')" by (cases "probe m e a t p s")
  have one: "socket_socket m p = None \<longrightarrow>
      sockets_opened (trace (snd (probe m e a t p s))) = Suc (sockets_opened (trace s))
      \<and> sockets_closed (trace (snd (probe m e a t p s))) = Suc (sockets_closed (trace s))"
    using probe_created [OF _ p1] p1 by simp
  have none: "socket_socket m p \<noteq> None \<longrightarrow> snd (probe m e a t p s) = s"
    using probe_not_created [of m p _ e a t s] by auto
  have all: "outcome (port_scan m e r) = Completed ps \<longrightarrow>
        sockets_opened (effects (port_scan m e r)) = length [start_port r..end_port r]
        \<and> sockets_closed (effects (port_scan m e r)) = length [start_port r..end_port r]"
  proof
    assume c: "outcome (port_scan m e r) = Completed ps"
    from port_scan_Completed [OF c] obtain b where
      ef: "effects (port_scan m e r) =
           preamble r @ concat (map (probe_events b (timeout r)) [start_port r..end_port r])
             @ report ps"
      by blast
    show "sockets_opened (effects (port_scan m e r)) = length [start_port r..end_port r]
        \<and> sockets_closed (effects (port_scan m e r)) = length [start_port r..end_port r]"
      unfolding ef
      by (simp only: sockets_append sockets_preamble_report sockets_opened_probes
          sockets_closed_probes) simp
  qed
  from one none all port_scan_sockets [of m e r] show ?thesis by blast
qed

theorem sockets_balanced_witness:
  "outcome (port_scan machine_ok env7 req_5_9) = Completed [7]
   \<and> sockets_opened (effects (port_scan machine_ok env7 req_5_9)) = 5
   \<and> sockets_closed (effects (port_scan machine_ok env7 req_5_9)) = 5
   \<and> socket_socket machine_ok 7 = None
   \<and> sockets_opened (trace (snd (probe machine_ok env7 ''127.0.0.1'' (Finite (1/2)) 7
        \<lparr>open_ports = [], trace = []\<rparr>))) = 1
   \<and> sockets_closed (trace (snd (probe machine_ok env7 ''127.0.0.1'' (Finite (1/2)) 7
        \<lparr>open_ports = [], trace = []\<rparr>))) = 1
   \<and> socket_socket machine_emfile 6 = Some socket_error
   \<and> snd (probe machine_emfile env7 ''127.0.0.1'' (Finite (1/2)) 6
        \<lparr>open_ports = [], trace = []\<rparr>) = \<lparr>open_ports = [], trace = []\<rparr>"
proof -
  have l: "length [start_port req_5_9..end_port req_5_9] = 5" by (simp add: req_5_9_def)
  have ok: "socket_socket machine_ok 7 = None" by (simp add: machine_ok_def)
  have em: "socket_socket machine_emfile 6 = Some socket_error"
    by (simp add: machine_emfile_def)
  from sockets_balanced [of machine_ok 7 env7 "''127.0.0.1''" "Finite (1/2)"
      "\<lparr>open_ports = [], trace = []\<rparr>" req_5_9 "[7]"] run_5_9 ok
  have a: "sockets_opened (effects (port_scan machine_ok env7 req_5_9))
        = length [start_port req_5_9..end_port req_5_9]
     \<and> sockets_closed (effects (port_scan machine_ok env7 req_5_9))
        = length [start_port req_5_9..end_port req_5_9]
     \<and> sockets_opened (trace (snd (probe machine_ok env7 ''127.0.0.1'' (Finite (1/2)) 7
        \<lparr>open_ports = [], trace = []\<rparr>))) = Suc (sockets_opened [])
     \<and> sockets_closed (trace (snd (probe machine_ok env7 ''127.0.0.1'' (Finite (1/2)) 7
        \<lparr>open_ports = [], trace = []\<rparr>))) = Suc (sockets_closed [])"
    by simp
  from sockets_balanced [of machine_emfile 6 env7 "''127.0.0.1''" "Finite (1/2)"
      "\<lparr>open_ports = [], trace = []\<rparr>" req_5_9 "[7]"] em
  have b: "snd (probe machine_emfile env7 ''127.0.0.1'' (Finite (1/2)) 6
        \<lparr>open_ports = [], trace = []\<rparr>) = \<lparr>open_ports = [], trace = []\<rparr>"
    by simp
  have z: "sockets_opened [] = 0" "sockets_closed [] = 0"
    by (simp_all add: sockets_opened_def sockets_closed_def)
  from a l z have a': "sockets_opened (effects (port_scan machine_ok env7 req_5_9)) = 5
     \<and> sockets_closed (effects (port_scan machine_ok env7 req_5_9)) = 5
     \<and> sockets_opened (trace (snd (probe machine_ok env7 ''127.0.0.1'' (Finite (1/2)) 7
        \<lparr>open_ports = [], trace = []\<rparr>))) = 1
     \<and> sockets_closed (trace (snd (probe machine_ok env7 ''127.0.0.1'' (Finite (1/2)) 7
        \<lparr>open_ports = [], trace = []\<rparr>))) = 1"
    by simp
  from a' b ok em run_5_9 show ?thesis by blast
qed

subsection \<open>C10: the result is determined by the host's address and the outcomes in the range\<close>



end
